theory Spec2Isabelle
  imports Main
begin

section \<open>JavaScript values\<close>

text \<open>
  The request body of the test endpoint is untyped (\<^verbatim>\<open>req.body\<close> is \<^verbatim>\<open>any\<close>): a parsed JSON
  document, or \<^verbatim>\<open>undefined\<close>. The handler applies \<^verbatim>\<open>!\<close> and \<^verbatim>\<open>||\<close> to its fields, so the
  values are modelled with JavaScript's truthiness. Numbers are integers here: the handler
  only ever asks whether a number is zero.
\<close>

datatype jsvalue =
    JUndefined
  | JNull
  | JBool bool
  | JNum int
  | JStr string
  | JArr "jsvalue list"
  | JObj "(string \<times> jsvalue) list"

text \<open>\<^verbatim>\<open>ToBoolean\<close>: \<^verbatim>\<open>undefined\<close>, \<^verbatim>\<open>null\<close>, \<^verbatim>\<open>false\<close>, \<^verbatim>\<open>0\<close> and \<^verbatim>\<open>''\<close> are falsy;
  every object and array is truthy.\<close>

fun truthy :: "jsvalue \<Rightarrow> bool" where
  "truthy JUndefined = False"
| "truthy JNull = False"
| "truthy (JBool b) = b"
| "truthy (JNum n) = (n \<noteq> 0)"
| "truthy (JStr s) = (s \<noteq> [])"
| "truthy (JArr xs) = True"
| "truthy (JObj kvs) = True"

text \<open>\<^verbatim>\<open>a || b\<close> yields \<^verbatim>\<open>a\<close> itself when it is truthy, and \<^verbatim>\<open>b\<close> otherwise.\<close>

definition js_or :: "jsvalue \<Rightarrow> jsvalue \<Rightarrow> jsvalue" where
  "js_or a b = (if truthy a then a else b)"

text \<open>Reading one of the six configuration properties off a value that is neither
  \<^verbatim>\<open>undefined\<close> nor \<^verbatim>\<open>null\<close>: an object gives its own property or \<^verbatim>\<open>undefined\<close>; a
  primitive or an array has none of these properties.\<close>

fun own_prop :: "jsvalue \<Rightarrow> string \<Rightarrow> jsvalue" where
  "own_prop (JObj kvs) k = (case map_of kvs k of None \<Rightarrow> JUndefined | Some v \<Rightarrow> v)"
| "own_prop v k = JUndefined"

text \<open>A thrown \<^verbatim>\<open>Error\<close> object, as far as the handlers read it.\<close>

record js_error =
  err_name :: string
  err_message :: string

text \<open>How an awaited promise ends: it resolves, it rejects with an error, or it never
  settles.\<close>

datatype settled = Resolved | Rejected js_error | Pending

section \<open>The connectivity-test endpoint (\<^verbatim>\<open>pages/api/storage/test-s3.ts\<close>)\<close>

record request =
  req_method :: "string option"
  req_body :: jsvalue

text \<open>The options object handed to \<^verbatim>\<open>new S3Client\<close>.\<close>

record s3_client_config =
  cfg_endpoint :: jsvalue
  cfg_region :: jsvalue
  cfg_accessKeyId :: jsvalue
  cfg_secretAccessKey :: jsvalue
  cfg_forcePathStyle :: jsvalue

datatype response_body =
    ErrorBody string           \<comment> \<open>\<^verbatim>\<open>{ error }\<close>\<close>
  | ResultBody bool string     \<comment> \<open>\<^verbatim>\<open>{ success, message }\<close>\<close>

text \<open>What the handler does to the outside, in order. Writing a response
  (\<^verbatim>\<open>res.status(code).json(body)\<close>) and \<^verbatim>\<open>console.error\<close> are taken not to throw, and what
  the collaborators throw are \<^verbatim>\<open>Error\<close> objects.\<close>

datatype handler_event =
    RunMiddleware
  | NewS3Client s3_client_config
  | NewHeadBucketCommand jsvalue
  | Send s3_client_config jsvalue
  | ConsoleError js_error
  | Respond nat response_body

text \<open>How the handler's own promise ends.\<close>

datatype completion = Returned | Uncaught js_error | NeverSettles

text \<open>
  The collaborators that are imported, not defined, by the handler are parameters:
  \<^item> \<open>middleware\<close>: the awaited \<^verbatim>\<open>runMiddleware(req, res, corsAllMethods)\<close> of \<^verbatim>\<open>@/utils/cors\<close>;
  \<^item> \<open>construct\<close>: whether \<^verbatim>\<open>new S3Client(options)\<close> throws;
  \<^item> \<open>send\<close>: how the awaited \<^verbatim>\<open>s3Client.send(new HeadBucketCommand({ Bucket }))\<close> ends;
  \<^item> \<open>destructure_message\<close>: the engine's message text of the \<^verbatim>\<open>TypeError\<close> raised when
    \<^verbatim>\<open>undefined\<close> or \<^verbatim>\<open>null\<close> is destructured.
\<close>

record env =
  middleware :: "request \<Rightarrow> settled"
  construct :: "s3_client_config \<Rightarrow> js_error option"
  send :: "s3_client_config \<Rightarrow> jsvalue \<Rightarrow> settled"
  destructure_message :: "jsvalue \<Rightarrow> string"

definition type_error :: "env \<Rightarrow> jsvalue \<Rightarrow> js_error" where
  "type_error e v = \<lparr>err_name = ''TypeError'', err_message = destructure_message e v\<rparr>"

text \<open>The options of \<^verbatim>\<open>new S3Client({ endpoint: endpoint || undefined, region: region || 'us-east-1',
  credentials: { accessKeyId, secretAccessKey }, forcePathStyle: pathStyle || false })\<close>.\<close>

definition client_options :: "jsvalue \<Rightarrow> s3_client_config" where
  "client_options b =
     \<lparr>cfg_endpoint = js_or (own_prop b ''endpoint'') JUndefined,
      cfg_region = js_or (own_prop b ''region'') (JStr ''us-east-1''),
      cfg_accessKeyId = own_prop b ''accessKeyId'',
      cfg_secretAccessKey = own_prop b ''secretAccessKey'',
      cfg_forcePathStyle = js_or (own_prop b ''pathStyle'') (JBool False)\<rparr>"

text \<open>The body of the \<^verbatim>\<open>try\<close> block: \<open>Inl\<close> is a thrown error (with the events up to the
  throw), \<open>Inr\<close> is how the block ends otherwise.\<close>

definition try_block :: "env \<Rightarrow> request \<Rightarrow> (js_error + completion) \<times> handler_event list" where
  "try_block e req =
     (let b = req_body req in
      if b = JUndefined \<or> b = JNull then (Inl (type_error e b), [])
      else
        let accessKeyId = own_prop b ''accessKeyId'';
            secretAccessKey = own_prop b ''secretAccessKey'';
            bucket = own_prop b ''bucket''
        in
        if \<not> truthy accessKeyId \<or> \<not> truthy secretAccessKey \<or> \<not> truthy bucket then
          (Inr Returned,
           [Respond 400 (ErrorBody ''Missing required fields: accessKeyId, secretAccessKey, or bucket'')])
        else
          let opts = client_options b in
          (case construct e opts of
             Some err \<Rightarrow> (Inl err, [NewS3Client opts])
           | None \<Rightarrow>
              (case send e opts bucket of
                 Rejected err \<Rightarrow>
                   (Inl err, [NewS3Client opts, NewHeadBucketCommand bucket, Send opts bucket])
               | Pending \<Rightarrow>
                   (Inr NeverSettles, [NewS3Client opts, NewHeadBucketCommand bucket, Send opts bucket])
               | Resolved \<Rightarrow>
                   (Inr Returned,
                    [NewS3Client opts, NewHeadBucketCommand bucket, Send opts bucket,
                     Respond 200 (ResultBody True ''Connection test successful'')]))))"

text \<open>The text after \<^verbatim>\<open>Connection test failed: \<close> in the \<^verbatim>\<open>catch\<close> block:
  \<^verbatim>\<open>error.name === 'NoSuchBucket' ? 'Bucket not found' : error.message\<close>.\<close>

definition failure_detail :: "js_error \<Rightarrow> string" where
  "failure_detail err =
     (if err_name err = ''NoSuchBucket'' then ''Bucket not found'' else err_message err)"

definition catch_block :: "js_error \<Rightarrow> handler_event list" where
  "catch_block err =
     [ConsoleError err,
      Respond 500 (ResultBody False (''Connection test failed: '' @ failure_detail err))]"

definition handler :: "env \<Rightarrow> request \<Rightarrow> completion \<times> handler_event list" where
  "handler e req =
     (case middleware e req of
        Rejected err \<Rightarrow> (Uncaught err, [RunMiddleware])
      | Pending \<Rightarrow> (NeverSettles, [RunMiddleware])
      | Resolved \<Rightarrow>
          if req_method req \<noteq> Some ''POST'' then
            (Returned, [RunMiddleware, Respond 405 (ErrorBody ''Method not allowed'')])
          else
            (case try_block e req of
               (Inr c, evs) \<Rightarrow> (c, RunMiddleware # evs)
             | (Inl err, evs) \<Rightarrow> (Returned, RunMiddleware # evs @ catch_block err)))"

text \<open>The responses among a run's events.\<close>

fun responses :: "handler_event list \<Rightarrow> (nat \<times> response_body) list" where
  "responses [] = []"
| "responses (Respond code b # evs) = (code, b) # responses evs"
| "responses (ev # evs) = responses evs"

section \<open>The configuration panel (\<^verbatim>\<open>S3ConfigPanel\<close>)\<close>

text \<open>The interface of \<^verbatim>\<open>types/s3config.ts\<close>.\<close>

record S3Config =
  endpoint :: string
  accessKeyId :: string
  secretAccessKey :: string
  region :: string
  bucket :: string
  pathStyle :: bool

text \<open>The object literal of the initial \<^verbatim>\<open>useState\<close> value and of the reset function.\<close>

definition default_config :: S3Config where
  "default_config =
     \<lparr>endpoint = [], accessKeyId = [], secretAccessKey = [], region = [], bucket = [],
      pathStyle = False\<rparr>"

text \<open>The settings document of the store: the panel reads and writes its \<^verbatim>\<open>s3Config\<close>
  entry, which may be missing; the other entries are the record's extension and are
  carried along by \<^verbatim>\<open>{ ...settings, s3Config: newConfig }\<close>.\<close>

record settings =
  s3Config :: "S3Config option"

record test_result =
  success :: bool
  message :: string

text \<open>The component's state (its four \<^verbatim>\<open>useState\<close> cells) together with the settings it
  sees in the store.\<close>

record 'a panel =
  config :: S3Config
  showSecret :: bool
  testResult :: "test_result option"
  isTesting :: bool
  settings :: "'a settings_scheme"

text \<open>The calls the panel makes on its collaborators: \<^verbatim>\<open>setSettings\<close>, \<^verbatim>\<open>saveSettings\<close> and
  \<^verbatim>\<open>setTimeout\<close>. The panel makes no other call.\<close>

datatype 'a panel_effect =
    SetSettings "'a settings_scheme"
  | SaveSettings "'a settings_scheme"
  | SetTimeout nat

text \<open>The translation function \<^verbatim>\<open>_\<close> of \<^verbatim>\<open>useTranslation\<close>: a key and its interpolation
  arguments give the displayed text.\<close>

type_synonym translate = "string \<Rightarrow> (string \<times> string) list \<Rightarrow> string"

definition initial_panel :: "'a settings_scheme \<Rightarrow> 'a panel" where
  "initial_panel st =
     \<lparr>config = default_config, showSecret = False, testResult = None, isTesting = False,
      settings = st\<rparr>"

text \<open>
  The reconciliation effect compares \<^verbatim>\<open>JSON.stringify\<close> of two object literals holding the
  five fields other than \<^verbatim>\<open>secretAccessKey\<close>, in the same key order. The serialisation of
  four strings and a boolean under fixed keys determines them, so the two texts differ
  exactly when the five fields do.
\<close>

definition non_secret :: "S3Config \<Rightarrow> string \<times> string \<times> string \<times> string \<times> bool" where
  "non_secret c = (endpoint c, accessKeyId c, region c, bucket c, pathStyle c)"

text \<open>The new local configuration the effect computes from the store's entry and the
  current local configuration.\<close>

definition reconcile :: "S3Config option \<Rightarrow> S3Config \<Rightarrow> S3Config" where
  "reconcile stored c =
     (case stored of
        Some sc \<Rightarrow> if non_secret c \<noteq> non_secret sc then sc else c
      | None \<Rightarrow>
          if endpoint c \<noteq> [] \<or> accessKeyId c \<noteq> [] \<or> region c \<noteq> [] \<or> bucket c \<noteq> [] \<or> pathStyle c
          then \<lparr>endpoint = [], accessKeyId = [], secretAccessKey = secretAccessKey c,
                region = [], bucket = [], pathStyle = False\<rparr>
          else c)"

text \<open>The effect itself; React runs it on mount and after every change of
  \<^verbatim>\<open>settings.s3Config\<close>.\<close>

definition s3ConfigEffect :: "'a panel \<Rightarrow> 'a panel" where
  "s3ConfigEffect s = s\<lparr>config := reconcile (s3Config (settings s)) (config s)\<rparr>"

definition mount :: "'a settings_scheme \<Rightarrow> 'a panel" where
  "mount st = s3ConfigEffect (initial_panel st)"

text \<open>The store's entry is replaced from elsewhere, and the effect runs.\<close>

definition store_changed :: "S3Config option \<Rightarrow> 'a panel \<Rightarrow> 'a panel" where
  "store_changed stored s = s3ConfigEffect (s\<lparr>settings := (settings s)\<lparr>s3Config := stored\<rparr>\<rparr>)"

text \<open>The function handed to \<^verbatim>\<open>onRegisterReset\<close>.\<close>

definition reset_fn :: "'a panel \<Rightarrow> 'a panel \<times> 'a panel_effect list" where
  "reset_fn s = (s\<lparr>config := default_config\<rparr>, [])"

text \<open>\<^verbatim>\<open>saveConfigToStore\<close> up to its \<^verbatim>\<open>await\<close>, and its continuation once the awaited
  \<^verbatim>\<open>saveSettings\<close> has settled (\<open>None\<close>: resolved; \<open>Some err\<close>: rejected with \<open>err\<close>).\<close>

definition saveConfigToStore :: "S3Config \<Rightarrow> 'a panel \<Rightarrow> 'a panel \<times> 'a panel_effect list" where
  "saveConfigToStore newConfig s =
     (let newSettings = (settings s)\<lparr>s3Config := Some newConfig\<rparr>
      in (s\<lparr>settings := newSettings\<rparr>, [SetSettings newSettings, SaveSettings newSettings]))"

definition saveConfigToStore_settled :: "translate \<Rightarrow> js_error option \<Rightarrow> 'a panel \<Rightarrow> 'a panel" where
  "saveConfigToStore_settled tr outcome s =
     (case outcome of
        None \<Rightarrow>
          s\<lparr>testResult :=
              Some \<lparr>success = True, message = tr ''S3 configuration saved successfully'' []\<rparr>\<rparr>
      | Some err \<Rightarrow>
          s\<lparr>testResult :=
              Some \<lparr>success = False,
                    message = tr ''Failed to save S3 configuration: {{error}}''
                                 [(''error'', err_message err)]\<rparr>\<rparr>)"

text \<open>The six \<^verbatim>\<open>onChange\<close> handlers of the form call \<^verbatim>\<open>handleChange\<close> with a field and a value
  of the field's type.\<close>

datatype field_change =
    Endpoint string
  | AccessKeyId string
  | SecretAccessKey string
  | Region string
  | Bucket string
  | PathStyle bool

text \<open>\<^verbatim>\<open>{ ...config, [field]: value }\<close>\<close>

fun apply_change :: "field_change \<Rightarrow> S3Config \<Rightarrow> S3Config" where
  "apply_change (Endpoint v) c = c\<lparr>endpoint := v\<rparr>"
| "apply_change (AccessKeyId v) c = c\<lparr>accessKeyId := v\<rparr>"
| "apply_change (SecretAccessKey v) c = c\<lparr>secretAccessKey := v\<rparr>"
| "apply_change (Region v) c = c\<lparr>region := v\<rparr>"
| "apply_change (Bucket v) c = c\<lparr>bucket := v\<rparr>"
| "apply_change (PathStyle v) c = c\<lparr>pathStyle := v\<rparr>"

definition handleChange :: "field_change \<Rightarrow> 'a panel \<Rightarrow> 'a panel \<times> 'a panel_effect list" where
  "handleChange ch s =
     (let newConfig = apply_change ch (config s)
      in saveConfigToStore newConfig (s\<lparr>config := newConfig\<rparr>))"

text \<open>A field edit as the user sees it: \<^verbatim>\<open>handleChange\<close>, then the effect, since
  \<^verbatim>\<open>settings.s3Config\<close> has changed.\<close>

definition field_edited :: "field_change \<Rightarrow> 'a panel \<Rightarrow> 'a panel \<times> 'a panel_effect list" where
  "field_edited ch s = (case handleChange ch s of (s', effs) \<Rightarrow> (s3ConfigEffect s', effs))"

text \<open>\<^verbatim>\<open>handleTestConnection\<close> up to its \<^verbatim>\<open>await\<close> of a one-second timer, and its continuation
  when the timer fires. The timer's promise cannot reject, so the \<^verbatim>\<open>catch\<close> block is never
  entered; the \<^verbatim>\<open>finally\<close> block clears \<^verbatim>\<open>isTesting\<close>.\<close>

definition handleTestConnection :: "'a panel \<Rightarrow> 'a panel \<times> 'a panel_effect list" where
  "handleTestConnection s = (s\<lparr>isTesting := True, testResult := None\<rparr>, [SetTimeout 1000])"

definition handleTestConnection_resumed :: "translate \<Rightarrow> 'a panel \<Rightarrow> 'a panel" where
  "handleTestConnection_resumed tr s =
     s\<lparr>testResult := Some \<lparr>success = True, message = tr ''Connection test successful'' []\<rparr>,
       isTesting := False\<rparr>"

text \<open>A whole test action: the click, then the timer.\<close>

definition test_connection :: "translate \<Rightarrow> 'a panel \<Rightarrow> 'a panel \<times> 'a panel_effect list" where
  "test_connection tr s =
     (case handleTestConnection s of (s', effs) \<Rightarrow> (handleTestConnection_resumed tr s', effs))"

section \<open>Concrete requests and collaborators\<close>

text \<open>A store whose bucket answers the probe, one whose probe is rejected with the
  \<^verbatim>\<open>NoSuchBucket\<close> error, one that cannot be reached, and a middleware that rejects.\<close>

definition env_reachable :: env where
  "env_reachable =
     \<lparr>middleware = (\<lambda>req. Resolved), construct = (\<lambda>opts. None),
      send = (\<lambda>opts b. Resolved),
      destructure_message = (\<lambda>v. ''Cannot destructure property of req.body'')\<rparr>"

definition no_such_bucket :: js_error where
  "no_such_bucket =
     \<lparr>err_name = ''NoSuchBucket'', err_message = ''The specified bucket does not exist''\<rparr>"

definition timed_out :: js_error where
  "timed_out = \<lparr>err_name = ''TimeoutError'', err_message = ''connect ETIMEDOUT''\<rparr>"

definition env_missing_bucket :: env where
  "env_missing_bucket = env_reachable\<lparr>send := (\<lambda>opts b. Rejected no_such_bucket)\<rparr>"

definition env_unreachable :: env where
  "env_unreachable = env_reachable\<lparr>send := (\<lambda>opts b. Rejected timed_out)\<rparr>"

definition env_cors_rejects :: env where
  "env_cors_rejects =
     env_reachable\<lparr>middleware := (\<lambda>req. Rejected \<lparr>err_name = ''Error'', err_message = ''cors''\<rparr>)\<rparr>"

definition post :: "jsvalue \<Rightarrow> request" where
  "post b = \<lparr>req_method = Some ''POST'', req_body = b\<rparr>"

definition get_request :: request where
  "get_request = \<lparr>req_method = Some ''GET'', req_body = JUndefined\<rparr>"

definition body_AK_SK_b :: jsvalue where
  "body_AK_SK_b =
     JObj [(''accessKeyId'', JStr ''AK''), (''secretAccessKey'', JStr ''SK''),
           (''bucket'', JStr ''b'')]"

definition body_full :: jsvalue where
  "body_full =
     JObj [(''endpoint'', JStr ''http://minio:9000''), (''accessKeyId'', JStr ''AK''),
           (''secretAccessKey'', JStr ''SK''), (''region'', JStr ''eu-west-1''),
           (''bucket'', JStr ''b''), (''pathStyle'', JBool True)]"

definition body_bucket_only :: jsvalue where
  "body_bucket_only = JObj [(''bucket'', JStr ''b'')]"

text \<open>A body whose optional fields are not of the documented types: a numeric region and
  a numeric \<^verbatim>\<open>pathStyle\<close>.\<close>

definition body_odd_types :: jsvalue where
  "body_odd_types =
     JObj [(''accessKeyId'', JStr ''AK''), (''secretAccessKey'', JStr ''SK''),
           (''bucket'', JStr ''b''), (''region'', JNum 5), (''pathStyle'', JNum 0)]"

text \<open>A middleware that answers a preflight request itself and never hands it on, so that
  its awaited call does not settle for \<^verbatim>\<open>OPTIONS\<close>.\<close>

definition env_cors_preflight :: env where
  "env_cors_preflight =
     env_reachable\<lparr>middleware :=
       (\<lambda>req. if req_method req = Some ''OPTIONS'' then Pending else Resolved)\<rparr>"

definition options_request :: request where
  "options_request = \<lparr>req_method = Some ''OPTIONS'', req_body = JUndefined\<rparr>"

section \<open>Concrete panel states\<close>

text \<open>A translation that shows the key as it is, and ignores the arguments.\<close>

definition tr_key :: translate where
  "tr_key k args = k"

definition stored_config :: S3Config where
  "stored_config =
     \<lparr>endpoint = ''http://minio:9000'', accessKeyId = ''AK'', secretAccessKey = ''SK'',
      region = ''eu-west-1'', bucket = ''b'', pathStyle = True\<rparr>"

text \<open>The configuration of a user who has typed a secret into an otherwise empty form, and
  (below) the panel mounted on an empty store after that edit.\<close>

definition typing_secret :: S3Config where
  "typing_secret = default_config\<lparr>secretAccessKey := ''S3CR3T''\<rparr>"

text \<open>A store entry that differs in the endpoint and has no secret, and one that agrees
  with the form in every field but the secret.\<close>

definition incoming_changed :: S3Config where
  "incoming_changed = default_config\<lparr>endpoint := ''http://minio:9000''\<rparr>"

definition incoming_unchanged :: S3Config where
  "incoming_unchanged = default_config"

definition panel_typing :: "unit panel" where
  "panel_typing = fst (field_edited (SecretAccessKey ''S3CR3T'') (mount \<lparr>s3Config = None\<rparr>))"

definition panel_loaded :: "unit panel" where
  "panel_loaded = mount \<lparr>s3Config = Some stored_config\<rparr>"

definition disk_full :: js_error where
  "disk_full = \<lparr>err_name = ''Error'', err_message = ''disk full''\<rparr>"

section \<open>Facts about the handler's branches\<close>

lemma nonempty_string_truthy: "truthy (JStr s) \<longleftrightarrow> s \<noteq> []"
  by simp

lemma absent_or_empty_falsy: "v = JUndefined \<or> v = JStr [] \<Longrightarrow> \<not> truthy v"
  by auto

lemma truthy_prop_object: "truthy (own_prop b k) \<Longrightarrow> b \<noteq> JUndefined \<and> b \<noteq> JNull"
  by (cases b) auto

lemma try_block_no_body:
  "req_body req = JUndefined \<or> req_body req = JNull \<Longrightarrow>
   try_block e req = (Inl (type_error e (req_body req)), [])"
  by (auto simp: try_block_def)

lemma try_block_missing:
  assumes "req_body req \<noteq> JUndefined" "req_body req \<noteq> JNull"
    and "\<not> truthy (own_prop (req_body req) ''accessKeyId'') \<or>
         \<not> truthy (own_prop (req_body req) ''secretAccessKey'') \<or>
         \<not> truthy (own_prop (req_body req) ''bucket'')"
  shows "try_block e req =
     (Inr Returned,
      [Respond 400 (ErrorBody ''Missing required fields: accessKeyId, secretAccessKey, or bucket'')])"
  using assms by (auto simp: try_block_def Let_def)

lemma try_block_present:
  assumes "truthy (own_prop (req_body req) ''accessKeyId'')"
    and "truthy (own_prop (req_body req) ''secretAccessKey'')"
    and "truthy (own_prop (req_body req) ''bucket'')"
  shows "try_block e req =
     (let b = req_body req; opts = client_options b; bkt = own_prop b ''bucket'' in
      case construct e opts of
        Some err \<Rightarrow> (Inl err, [NewS3Client opts])
      | None \<Rightarrow>
         (case send e opts bkt of
            Rejected err \<Rightarrow>
              (Inl err, [NewS3Client opts, NewHeadBucketCommand bkt, Send opts bkt])
          | Pending \<Rightarrow>
              (Inr NeverSettles, [NewS3Client opts, NewHeadBucketCommand bkt, Send opts bkt])
          | Resolved \<Rightarrow>
              (Inr Returned,
               [NewS3Client opts, NewHeadBucketCommand bkt, Send opts bkt,
                Respond 200 (ResultBody True ''Connection test successful'')])))"
  using assms truthy_prop_object[OF assms(1)]
  by (simp add: try_block_def Let_def)

text \<open>The detail reads \<^verbatim>\<open>Bucket not found\<close> for the \<^verbatim>\<open>NoSuchBucket\<close> class, and for an error
  of another class only when that is the error's own message text.\<close>

lemma failure_detail_bucket_not_found:
  "failure_detail err = ''Bucket not found'' \<longleftrightarrow>
     err_name err = ''NoSuchBucket'' \<or> err_message err = ''Bucket not found''"
  by (simp add: failure_detail_def)

lemma handler_post:
  assumes "middleware e req = Resolved" and "req_method req = Some ''POST''"
  shows "handler e req =
     (case try_block e req of
        (Inr c, evs) \<Rightarrow> (c, RunMiddleware # evs)
      | (Inl err, evs) \<Rightarrow> (Returned, RunMiddleware # evs @ catch_block err))"
  using assms by (simp add: handler_def)

text \<open>The concrete collaborators and requests, evaluated.\<close>

lemma post_simps: "req_method (post b) = Some ''POST''" "req_body (post b) = b"
  by (simp_all add: post_def)

lemma env_reachable_simps:
  "middleware env_reachable req = Resolved"
  "construct env_reachable opts = None"
  "send env_reachable opts v = Resolved"
  "destructure_message env_reachable v = ''Cannot destructure property of req.body''"
  by (simp_all add: env_reachable_def)

lemma env_missing_bucket_simps:
  "middleware env_missing_bucket req = Resolved"
  "construct env_missing_bucket opts = None"
  "send env_missing_bucket opts v = Rejected no_such_bucket"
  by (simp_all add: env_missing_bucket_def env_reachable_def)

lemma env_unreachable_simps:
  "middleware env_unreachable req = Resolved"
  "construct env_unreachable opts = None"
  "send env_unreachable opts v = Rejected timed_out"
  by (simp_all add: env_unreachable_def env_reachable_def)

lemma body_AK_SK_b_props:
  "own_prop body_AK_SK_b ''accessKeyId'' = JStr ''AK''"
  "own_prop body_AK_SK_b ''secretAccessKey'' = JStr ''SK''"
  "own_prop body_AK_SK_b ''bucket'' = JStr ''b''"
  "own_prop body_AK_SK_b ''endpoint'' = JUndefined"
  "own_prop body_AK_SK_b ''region'' = JUndefined"
  "own_prop body_AK_SK_b ''pathStyle'' = JUndefined"
  by (simp_all add: body_AK_SK_b_def)

lemma env_cors_rejects_simps:
  "middleware env_cors_rejects req = Rejected \<lparr>err_name = ''Error'', err_message = ''cors''\<rparr>"
  by (simp add: env_cors_rejects_def)

lemma body_bucket_only_props:
  "own_prop body_bucket_only ''accessKeyId'' = JUndefined"
  "own_prop body_bucket_only ''secretAccessKey'' = JUndefined"
  "own_prop body_bucket_only ''bucket'' = JStr ''b''"
  by (simp_all add: body_bucket_only_def)

lemma env_cors_preflight_simps:
  "middleware env_cors_preflight options_request = Pending"
  by (simp add: env_cors_preflight_def options_request_def)

lemma body_odd_types_props:
  "own_prop body_odd_types ''accessKeyId'' = JStr ''AK''"
  "own_prop body_odd_types ''secretAccessKey'' = JStr ''SK''"
  "own_prop body_odd_types ''bucket'' = JStr ''b''"
  "own_prop body_odd_types ''endpoint'' = JUndefined"
  "own_prop body_odd_types ''region'' = JNum 5"
  "own_prop body_odd_types ''pathStyle'' = JNum 0"
  by (simp_all add: body_odd_types_def)

lemma body_full_props:
  "own_prop body_full ''accessKeyId'' = JStr ''AK''"
  "own_prop body_full ''secretAccessKey'' = JStr ''SK''"
  "own_prop body_full ''bucket'' = JStr ''b''"
  "own_prop body_full ''endpoint'' = JStr ''http://minio:9000''"
  "own_prop body_full ''region'' = JStr ''eu-west-1''"
  "own_prop body_full ''pathStyle'' = JBool True"
  by (simp_all add: body_full_def)

lemma try_block_starts_with_client:
  assumes "truthy (own_prop (req_body req) ''accessKeyId'')"
    and "truthy (own_prop (req_body req) ''secretAccessKey'')"
    and "truthy (own_prop (req_body req) ''bucket'')"
  shows "\<exists>evs. snd (try_block e req) = NewS3Client (client_options (req_body req)) # evs"
  using assms
  by (simp add: try_block_present Let_def split: option.split settled.split)

lemma handler_post_events:
  assumes "middleware e req = Resolved" and "req_method req = Some ''POST''"
    and "snd (try_block e req) = ev # evs"
  shows "\<exists>evs'. snd (handler e req) = RunMiddleware # ev # evs'"
  using assms by (cases "try_block e req") (auto simp: handler_post split: sum.split)

section \<open>Facts about the panel's handlers\<close>

lemma reconcile_same: "reconcile (Some c) c = c"
  by (simp add: reconcile_def)

lemma reconcile_Some:
  "reconcile (Some sc) c = (if non_secret sc = non_secret c then c else sc)"
  by (auto simp: reconcile_def)

lemma reconcile_None_secret: "secretAccessKey (reconcile None c) = secretAccessKey c"
  by (simp add: reconcile_def)

lemma handleChange_eq:
  "handleChange ch s =
     (s\<lparr>config := apply_change ch (config s),
        settings := (settings s)\<lparr>s3Config := Some (apply_change ch (config s))\<rparr>\<rparr>,
      [SetSettings ((settings s)\<lparr>s3Config := Some (apply_change ch (config s))\<rparr>),
       SaveSettings ((settings s)\<lparr>s3Config := Some (apply_change ch (config s))\<rparr>)])"
  by (simp add: handleChange_def saveConfigToStore_def Let_def)

text \<open>After \<^verbatim>\<open>handleChange\<close> the store's entry is the local configuration, so the effect
  changes nothing.\<close>

lemma field_edited_eq: "field_edited ch s = handleChange ch s"
  by (simp add: field_edited_def handleChange_eq s3ConfigEffect_def reconcile_same)

lemma settled_only_result:
  "config (saveConfigToStore_settled tr outcome s) = config s"
  "settings (saveConfigToStore_settled tr outcome s) = settings s"
  "isTesting (saveConfigToStore_settled tr outcome s) = isTesting s"
  "showSecret (saveConfigToStore_settled tr outcome s) = showSecret s"
  by (simp_all add: saveConfigToStore_settled_def split: option.split)

lemma mount_empty_store: "mount \<lparr>s3Config = None\<rparr> = initial_panel \<lparr>s3Config = None\<rparr>"
  by (simp add: mount_def s3ConfigEffect_def reconcile_def initial_panel_def default_config_def)

lemma panel_typing_simps:
  "config panel_typing = typing_secret"
  "settings panel_typing = \<lparr>s3Config = Some typing_secret\<rparr>"
  "isTesting panel_typing = False"
  "secretAccessKey typing_secret = ''S3CR3T''"
  "non_secret typing_secret = non_secret default_config"
  by (simp_all add: panel_typing_def field_edited_eq handleChange_eq mount_empty_store
      initial_panel_def typing_secret_def non_secret_def)

lemma incoming_simps:
  "secretAccessKey incoming_changed = []"
  "secretAccessKey incoming_unchanged = []"
  "non_secret incoming_unchanged = non_secret default_config"
  "non_secret incoming_changed \<noteq> non_secret default_config"
  by (simp_all add: incoming_changed_def incoming_unchanged_def default_config_def
      non_secret_def)

lemma panel_loaded_simps:
  "config panel_loaded = stored_config"
  "settings panel_loaded = \<lparr>s3Config = Some stored_config\<rparr>"
  "testResult panel_loaded = None"
  by (simp_all add: panel_loaded_def mount_def initial_panel_def s3ConfigEffect_def
      reconcile_def non_secret_def default_config_def stored_config_def)

section \<open>The endpoint: outcome of the probe\<close>

text \<open>
  Claim C1. A POST request that the middleware lets through, whose body holds
  \<^verbatim>\<open>accessKeyId\<close>, \<^verbatim>\<open>secretAccessKey\<close> and \<^verbatim>\<open>bucket\<close> (non-empty strings are truthy), and for
  which the client is constructed: when the HeadBucket probe resolves, the handler answers
  200 with \<^verbatim>\<open>{success: true, message: "Connection test successful"}\<close>; when the probe is
  rejected with an error, the handler logs it and answers 500 with
  \<^verbatim>\<open>{success: false, message: "Connection test failed: <detail>"}\<close>, where the detail is
  \<^verbatim>\<open>Bucket not found\<close> for an error named \<^verbatim>\<open>NoSuchBucket\<close> and the error's own message text
  for every other error.
\<close>

theorem handler_probe_outcome:
  assumes "middleware e req = Resolved"
    and "req_method req = Some ''POST''"
    and "b = req_body req"
    and "truthy (own_prop b ''accessKeyId'')"
    and "truthy (own_prop b ''secretAccessKey'')"
    and "truthy (own_prop b ''bucket'')"
    and "opts = client_options b"
    and "bkt = own_prop b ''bucket''"
    and "construct e opts = None"
  shows
    "(send e opts bkt = Resolved \<longrightarrow>
        handler e req =
          (Returned,
           [RunMiddleware, NewS3Client opts, NewHeadBucketCommand bkt, Send opts bkt,
            Respond 200 (ResultBody True ''Connection test successful'')])) \<and>
     (\<forall>err. send e opts bkt = Rejected err \<longrightarrow>
        handler e req =
          (Returned,
           [RunMiddleware, NewS3Client opts, NewHeadBucketCommand bkt, Send opts bkt,
            ConsoleError err,
            Respond 500
              (ResultBody False
                 (''Connection test failed: '' @
                  (if err_name err = ''NoSuchBucket'' then ''Bucket not found''
                   else err_message err)))]))"
  using assms
  by (simp add: handler_post try_block_present catch_block_def failure_detail_def Let_def)

theorem handler_probe_outcome_witness:
  "handler env_reachable (post body_AK_SK_b) =
     (Returned,
      [RunMiddleware, NewS3Client (client_options body_AK_SK_b),
       NewHeadBucketCommand (JStr ''b''), Send (client_options body_AK_SK_b) (JStr ''b''),
       Respond 200 (ResultBody True ''Connection test successful'')]) \<and>
   handler env_missing_bucket (post body_AK_SK_b) =
     (Returned,
      [RunMiddleware, NewS3Client (client_options body_AK_SK_b),
       NewHeadBucketCommand (JStr ''b''), Send (client_options body_AK_SK_b) (JStr ''b''),
       ConsoleError no_such_bucket,
       Respond 500 (ResultBody False ''Connection test failed: Bucket not found'')]) \<and>
   handler env_unreachable (post body_AK_SK_b) =
     (Returned,
      [RunMiddleware, NewS3Client (client_options body_AK_SK_b),
       NewHeadBucketCommand (JStr ''b''), Send (client_options body_AK_SK_b) (JStr ''b''),
       ConsoleError timed_out,
       Respond 500 (ResultBody False ''Connection test failed: connect ETIMEDOUT'')])"
proof -
  have req: "req_method (post body_AK_SK_b) = Some ''POST''"
    and b: "body_AK_SK_b = req_body (post body_AK_SK_b)"
    and ak: "truthy (own_prop body_AK_SK_b ''accessKeyId'')"
    and sk: "truthy (own_prop body_AK_SK_b ''secretAccessKey'')"
    and bk: "truthy (own_prop body_AK_SK_b ''bucket'')"
    and bkt: "JStr ''b'' = own_prop body_AK_SK_b ''bucket''"
    by (simp_all add: post_simps body_AK_SK_b_props)
  have "handler env_reachable (post body_AK_SK_b) =
     (Returned,
      [RunMiddleware, NewS3Client (client_options body_AK_SK_b),
       NewHeadBucketCommand (JStr ''b''), Send (client_options body_AK_SK_b) (JStr ''b''),
       Respond 200 (ResultBody True ''Connection test successful'')])"
    using handler_probe_outcome [OF env_reachable_simps(1) req b ak sk bk refl bkt
        env_reachable_simps(2)]
    by (simp only: env_reachable_simps simp_thms)
  moreover have "handler env_missing_bucket (post body_AK_SK_b) =
     (Returned,
      [RunMiddleware, NewS3Client (client_options body_AK_SK_b),
       NewHeadBucketCommand (JStr ''b''), Send (client_options body_AK_SK_b) (JStr ''b''),
       ConsoleError no_such_bucket,
       Respond 500 (ResultBody False ''Connection test failed: Bucket not found'')])"
    using handler_probe_outcome [OF env_missing_bucket_simps(1) req b ak sk bk refl bkt
        env_missing_bucket_simps(2)]
    by (simp add: env_missing_bucket_simps no_such_bucket_def)
  moreover have "handler env_unreachable (post body_AK_SK_b) =
     (Returned,
      [RunMiddleware, NewS3Client (client_options body_AK_SK_b),
       NewHeadBucketCommand (JStr ''b''), Send (client_options body_AK_SK_b) (JStr ''b''),
       ConsoleError timed_out,
       Respond 500 (ResultBody False ''Connection test failed: connect ETIMEDOUT'')])"
    using handler_probe_outcome [OF env_unreachable_simps(1) req b ak sk bk refl bkt
        env_unreachable_simps(2)]
    by (simp add: env_unreachable_simps timed_out_def)
  ultimately show ?thesis by simp
qed

section \<open>The endpoint: method check and cross-origin middleware\<close>

text \<open>
  Claim C5, as stated, fails: the middleware is awaited before the method check, so a
  request that it does not hand on gets no 405. Here the middleware's call never settles
  for a preflight request; the handler goes no further and writes no response.
\<close>

theorem preflight_gets_no_405:
  "req_method options_request = Some ''OPTIONS'' \<and>
   handler env_cors_preflight options_request = (NeverSettles, [RunMiddleware]) \<and>
   responses (snd (handler env_cors_preflight options_request)) = []"
  by (simp add: handler_def env_cors_preflight_def options_request_def)

text \<open>
  Claim C5, amended. Every run of the handler starts with the cross-origin middleware,
  whatever the method; a request whose method is not POST and that the middleware lets
  through (its awaited call resolves) is answered with status 405 and nothing else
  happens; and when the middleware rejects or never settles, the run ends there, without
  any response, whatever the method: the method is looked at only after the middleware.
\<close>

theorem handler_method_not_allowed:
  "(\<exists>evs. snd (handler e req) = RunMiddleware # evs) \<and>
   (middleware e req = Resolved \<longrightarrow> req_method req \<noteq> Some ''POST'' \<longrightarrow>
      handler e req = (Returned, [RunMiddleware, Respond 405 (ErrorBody ''Method not allowed'')])) \<and>
   (middleware e req \<noteq> Resolved \<longrightarrow> snd (handler e req) = [RunMiddleware])"
  by (cases "middleware e req")
     (auto simp: handler_def split: prod.splits sum.splits)

theorem handler_method_not_allowed_witness:
  "handler env_reachable get_request =
     (Returned, [RunMiddleware, Respond 405 (ErrorBody ''Method not allowed'')]) \<and>
   snd (handler env_cors_rejects get_request) = [RunMiddleware]"
  using handler_method_not_allowed [of env_reachable get_request]
    handler_method_not_allowed [of env_cors_rejects get_request]
  by (simp add: env_reachable_simps env_cors_rejects_simps get_request_def)

section \<open>The endpoint: missing fields\<close>

text \<open>
  Claim C2, as stated, fails: a POST request without a body has none of the three fields,
  and it is answered with 500, not 400, because destructuring the missing body throws
  inside the \<^verbatim>\<open>try\<close> block.
\<close>

theorem no_body_is_not_400:
  "own_prop (req_body (post JUndefined)) ''accessKeyId'' = JUndefined \<and>
   handler env_reachable (post JUndefined) =
     (Returned,
      [RunMiddleware,
       ConsoleError \<lparr>err_name = ''TypeError'',
                     err_message = ''Cannot destructure property of req.body''\<rparr>,
       Respond 500
         (ResultBody False ''Connection test failed: Cannot destructure property of req.body'')])"
  by (simp add: handler_post try_block_no_body post_simps env_reachable_simps catch_block_def
      failure_detail_def type_error_def)

text \<open>
  Claim C2, amended. A POST request that the middleware lets through and in which one of
  \<^verbatim>\<open>accessKeyId\<close>, \<^verbatim>\<open>secretAccessKey\<close>, \<^verbatim>\<open>bucket\<close> is absent or the empty string (or falsy in
  any other way): when the request has a body (neither \<^verbatim>\<open>undefined\<close> nor \<^verbatim>\<open>null\<close>), the
  handler answers 400 with
  \<^verbatim>\<open>{error: "Missing required fields: accessKeyId, secretAccessKey, or bucket"}\<close> and does
  nothing else; and, with or without a body, no storage client is constructed and no
  command is sent.
\<close>

theorem handler_missing_fields:
  assumes "middleware e req = Resolved"
    and "req_method req = Some ''POST''"
    and "b = req_body req"
    and "\<not> truthy (own_prop b ''accessKeyId'') \<or> \<not> truthy (own_prop b ''secretAccessKey'') \<or>
         \<not> truthy (own_prop b ''bucket'')"
  shows
    "(b \<noteq> JUndefined \<and> b \<noteq> JNull \<longrightarrow>
        handler e req =
          (Returned,
           [RunMiddleware,
            Respond 400
              (ErrorBody ''Missing required fields: accessKeyId, secretAccessKey, or bucket'')])) \<and>
     (\<forall>opts v. NewS3Client opts \<notin> set (snd (handler e req)) \<and>
              NewHeadBucketCommand v \<notin> set (snd (handler e req)) \<and>
              Send opts v \<notin> set (snd (handler e req)))"
proof (cases "b = JUndefined \<or> b = JNull")
  case True
  then have "try_block e req = (Inl (type_error e (req_body req)), [])"
    using assms(3) try_block_no_body by simp
  then show ?thesis
    using assms(1,2) True by (auto simp: handler_post catch_block_def)
next
  case False
  then have "try_block e req =
     (Inr Returned,
      [Respond 400 (ErrorBody ''Missing required fields: accessKeyId, secretAccessKey, or bucket'')])"
    using assms(3,4) try_block_missing [of req e] by simp
  then show ?thesis
    using assms(1,2) by (simp add: handler_post)
qed

theorem handler_missing_fields_witness:
  "handler env_reachable (post body_bucket_only) =
     (Returned,
      [RunMiddleware,
       Respond 400
         (ErrorBody ''Missing required fields: accessKeyId, secretAccessKey, or bucket'')])"
proof -
  have b: "body_bucket_only = req_body (post body_bucket_only)"
    by (simp add: post_simps)
  have missing: "\<not> truthy (own_prop body_bucket_only ''accessKeyId'') \<or>
      \<not> truthy (own_prop body_bucket_only ''secretAccessKey'') \<or>
      \<not> truthy (own_prop body_bucket_only ''bucket'')"
    by (simp add: body_bucket_only_props)
  have obj: "body_bucket_only \<noteq> JUndefined \<and> body_bucket_only \<noteq> JNull"
    by (simp add: body_bucket_only_def)
  from handler_missing_fields [OF env_reachable_simps(1) post_simps(1) b missing] obj
  show ?thesis by blast
qed

section \<open>The endpoint: options of the storage client\<close>

text \<open>
  Claim C8, as stated, fails: the defaults are taken with \<^verbatim>\<open>||\<close>, which looks at truthiness,
  not at the type. A region that is the number 5 is not a non-empty string, yet the client
  is constructed with region 5, not \<^verbatim>\<open>us-east-1\<close>; and a \<^verbatim>\<open>pathStyle\<close> that is provided as the
  number 0 gives path-style addressing \<^verbatim>\<open>false\<close>, not the provided value.
\<close>

theorem odd_types_pass_through:
  "own_prop (req_body (post body_odd_types)) ''region'' = JNum 5 \<and>
   own_prop (req_body (post body_odd_types)) ''pathStyle'' = JNum 0 \<and>
   handler env_reachable (post body_odd_types) =
     (Returned,
      [RunMiddleware,
       NewS3Client \<lparr>cfg_endpoint = JUndefined, cfg_region = JNum 5,
                    cfg_accessKeyId = JStr ''AK'', cfg_secretAccessKey = JStr ''SK'',
                    cfg_forcePathStyle = JBool False\<rparr>,
       NewHeadBucketCommand (JStr ''b''),
       Send \<lparr>cfg_endpoint = JUndefined, cfg_region = JNum 5,
              cfg_accessKeyId = JStr ''AK'', cfg_secretAccessKey = JStr ''SK'',
              cfg_forcePathStyle = JBool False\<rparr> (JStr ''b''),
       Respond 200 (ResultBody True ''Connection test successful'')])"
  by (simp add: handler_post try_block_present post_simps env_reachable_simps
      body_odd_types_props client_options_def js_or_def Let_def)

text \<open>
  Claim C8, amended. For a POST request that the middleware lets through and whose three
  required fields are present, the first thing the handler does is construct the storage
  client, with the request's credentials and with
  \<^item> the request's region when that is truthy (any non-empty string is), and \<^verbatim>\<open>us-east-1\<close>
    when it is absent, empty or falsy in any other way;
  \<^item> path-style addressing equal to the request's \<^verbatim>\<open>pathStyle\<close> when that is truthy, and
    \<^verbatim>\<open>false\<close> when it is absent or falsy in any other way: for a boolean \<^verbatim>\<open>pathStyle\<close> it is
    that boolean;
  \<^item> the request's endpoint when that is truthy (any non-empty string is), and no endpoint
    (\<^verbatim>\<open>undefined\<close>, the provider's default) when it is absent, empty or falsy in any other
    way.
  The options are thereby determined for every value of the three optional fields.
\<close>

theorem handler_client_options:
  assumes "middleware e req = Resolved"
    and "req_method req = Some ''POST''"
    and "b = req_body req"
    and "truthy (own_prop b ''accessKeyId'')"
    and "truthy (own_prop b ''secretAccessKey'')"
    and "truthy (own_prop b ''bucket'')"
  shows
    "\<exists>opts evs.
       snd (handler e req) = RunMiddleware # NewS3Client opts # evs \<and>
       cfg_accessKeyId opts = own_prop b ''accessKeyId'' \<and>
       cfg_secretAccessKey opts = own_prop b ''secretAccessKey'' \<and>
       (truthy (own_prop b ''region'') \<longrightarrow> cfg_region opts = own_prop b ''region'') \<and>
       (\<forall>r. own_prop b ''region'' = JStr r \<and> r \<noteq> [] \<longrightarrow> cfg_region opts = JStr r) \<and>
       (\<not> truthy (own_prop b ''region'') \<longrightarrow> cfg_region opts = JStr ''us-east-1'') \<and>
       (truthy (own_prop b ''pathStyle'') \<longrightarrow>
          cfg_forcePathStyle opts = own_prop b ''pathStyle'') \<and>
       (\<not> truthy (own_prop b ''pathStyle'') \<longrightarrow> cfg_forcePathStyle opts = JBool False) \<and>
       (\<forall>p. own_prop b ''pathStyle'' = JBool p \<longrightarrow> cfg_forcePathStyle opts = JBool p) \<and>
       (truthy (own_prop b ''endpoint'') \<longrightarrow> cfg_endpoint opts = own_prop b ''endpoint'') \<and>
       (\<forall>u. own_prop b ''endpoint'' = JStr u \<and> u \<noteq> [] \<longrightarrow> cfg_endpoint opts = JStr u) \<and>
       (\<not> truthy (own_prop b ''endpoint'') \<longrightarrow> cfg_endpoint opts = JUndefined)"
proof -
  obtain evs where "snd (try_block e req) = NewS3Client (client_options b) # evs"
    using try_block_starts_with_client [of req e] assms(3-6) by auto
  then obtain evs' where
    run: "snd (handler e req) = RunMiddleware # NewS3Client (client_options b) # evs'"
    using handler_post_events [OF assms(1,2)] by blast
  have "cfg_accessKeyId (client_options b) = own_prop b ''accessKeyId''"
    and "cfg_secretAccessKey (client_options b) = own_prop b ''secretAccessKey''"
    and "truthy (own_prop b ''region'') \<longrightarrow>
           cfg_region (client_options b) = own_prop b ''region''"
    and "\<forall>r. own_prop b ''region'' = JStr r \<and> r \<noteq> [] \<longrightarrow> cfg_region (client_options b) = JStr r"
    and "\<not> truthy (own_prop b ''region'') \<longrightarrow> cfg_region (client_options b) = JStr ''us-east-1''"
    and "truthy (own_prop b ''pathStyle'') \<longrightarrow>
           cfg_forcePathStyle (client_options b) = own_prop b ''pathStyle''"
    and "\<not> truthy (own_prop b ''pathStyle'') \<longrightarrow> cfg_forcePathStyle (client_options b) = JBool False"
    and "\<forall>p. own_prop b ''pathStyle'' = JBool p \<longrightarrow> cfg_forcePathStyle (client_options b) = JBool p"
    and "truthy (own_prop b ''endpoint'') \<longrightarrow>
           cfg_endpoint (client_options b) = own_prop b ''endpoint''"
    and "\<forall>u. own_prop b ''endpoint'' = JStr u \<and> u \<noteq> [] \<longrightarrow> cfg_endpoint (client_options b) = JStr u"
    and "\<not> truthy (own_prop b ''endpoint'') \<longrightarrow> cfg_endpoint (client_options b) = JUndefined"
    by (simp_all add: client_options_def js_or_def)
  with run show ?thesis by blast
qed

theorem handler_client_options_witness:
  "(\<exists>evs. snd (handler env_reachable (post body_AK_SK_b)) =
      RunMiddleware #
      NewS3Client \<lparr>cfg_endpoint = JUndefined, cfg_region = JStr ''us-east-1'',
                   cfg_accessKeyId = JStr ''AK'', cfg_secretAccessKey = JStr ''SK'',
                   cfg_forcePathStyle = JBool False\<rparr> # evs) \<and>
   (\<exists>evs. snd (handler env_reachable (post body_full)) =
      RunMiddleware #
      NewS3Client \<lparr>cfg_endpoint = JStr ''http://minio:9000'', cfg_region = JStr ''eu-west-1'',
                   cfg_accessKeyId = JStr ''AK'', cfg_secretAccessKey = JStr ''SK'',
                   cfg_forcePathStyle = JBool True\<rparr> # evs)"
proof -
  have b1: "body_AK_SK_b = req_body (post body_AK_SK_b)"
    and b2: "body_full = req_body (post body_full)"
    by (simp_all add: post_simps)
  have t1: "truthy (own_prop body_AK_SK_b ''accessKeyId'')"
    "truthy (own_prop body_AK_SK_b ''secretAccessKey'')"
    "truthy (own_prop body_AK_SK_b ''bucket'')"
    by (simp_all add: body_AK_SK_b_props)
  have t2: "truthy (own_prop body_full ''accessKeyId'')"
    "truthy (own_prop body_full ''secretAccessKey'')"
    "truthy (own_prop body_full ''bucket'')"
    by (simp_all add: body_full_props)
  obtain o1 evs1 where
    r1: "snd (handler env_reachable (post body_AK_SK_b)) = RunMiddleware # NewS3Client o1 # evs1"
    and f1: "cfg_accessKeyId o1 = JStr ''AK''" "cfg_secretAccessKey o1 = JStr ''SK''"
      "cfg_region o1 = JStr ''us-east-1''" "cfg_forcePathStyle o1 = JBool False"
      "cfg_endpoint o1 = JUndefined"
    using handler_client_options [OF env_reachable_simps(1) post_simps(1) b1 t1]
    by (auto simp: body_AK_SK_b_props)
  obtain o2 evs2 where
    r2: "snd (handler env_reachable (post body_full)) = RunMiddleware # NewS3Client o2 # evs2"
    and f2: "cfg_accessKeyId o2 = JStr ''AK''" "cfg_secretAccessKey o2 = JStr ''SK''"
      "cfg_region o2 = JStr ''eu-west-1''" "cfg_forcePathStyle o2 = JBool True"
      "cfg_endpoint o2 = JStr ''http://minio:9000''"
    using handler_client_options [OF env_reachable_simps(1) post_simps(1) b2 t2]
    by (auto simp: body_full_props)
  have "o1 = \<lparr>cfg_endpoint = JUndefined, cfg_region = JStr ''us-east-1'',
               cfg_accessKeyId = JStr ''AK'', cfg_secretAccessKey = JStr ''SK'',
               cfg_forcePathStyle = JBool False\<rparr>"
    using f1 by (cases o1) simp
  moreover have "o2 = \<lparr>cfg_endpoint = JStr ''http://minio:9000'', cfg_region = JStr ''eu-west-1'',
               cfg_accessKeyId = JStr ''AK'', cfg_secretAccessKey = JStr ''SK'',
               cfg_forcePathStyle = JBool True\<rparr>"
    using f2 by (cases o2) simp
  ultimately show ?thesis using r1 r2 by blast
qed

section \<open>The endpoint: errors thrown inside the try block\<close>


text \<open>The three places where the \<^verbatim>\<open>try\<close> block throws.\<close>

lemma try_block_throws_iff:
  "(\<exists>evs. try_block e req = (Inl err, evs)) \<longleftrightarrow>
     ((req_body req = JUndefined \<or> req_body req = JNull) \<and> err = type_error e (req_body req)) \<or>
     (truthy (own_prop (req_body req) ''accessKeyId'') \<and>
      truthy (own_prop (req_body req) ''secretAccessKey'') \<and>
      truthy (own_prop (req_body req) ''bucket'') \<and>
      (construct e (client_options (req_body req)) = Some err \<or>
       construct e (client_options (req_body req)) = None \<and>
       send e (client_options (req_body req)) (own_prop (req_body req) ''bucket'') = Rejected err))"
  by (auto simp: try_block_def Let_def split: option.split settled.split)

text \<open>An error of the middleware, which is awaited before the \<^verbatim>\<open>try\<close> block, does escape.\<close>

lemma middleware_error_escapes:
  "middleware e req = Rejected err \<Longrightarrow> handler e req = (Uncaught err, [RunMiddleware])"
  by (simp add: handler_def)


section \<open>The panel: reconciliation with the store\<close>

text \<open>
  Claim C3, as stated, fails: the user has typed a secret into the form, the store's entry
  changes to one with another endpoint and no secret, and the effect replaces the local
  configuration by the store's entry, so that the typed secret is gone.
\<close>

theorem store_update_erases_secret:
  "secretAccessKey incoming_changed = [] \<and>
   secretAccessKey (config panel_typing) = ''S3CR3T'' \<and>
   secretAccessKey (config (store_changed (Some incoming_changed) panel_typing)) = []"
  by (simp add: store_changed_def s3ConfigEffect_def reconcile_Some panel_typing_simps
      incoming_simps)

text \<open>
  Claim C3, amended. When the store's entry changes, the local secret is preserved if
  the incoming entry's other five fields equal the local ones: the local configuration is
  then left as it is. If one of them differs, the local configuration is replaced by the
  incoming entry as a whole, and the local secret with it.
\<close>

theorem store_update_secret:
  "(non_secret sc = non_secret (config s) \<longrightarrow>
      config (store_changed (Some sc) s) = config s \<and>
      secretAccessKey (config (store_changed (Some sc) s)) = secretAccessKey (config s)) \<and>
   (non_secret sc \<noteq> non_secret (config s) \<longrightarrow>
      config (store_changed (Some sc) s) = sc)"
  by (simp add: store_changed_def s3ConfigEffect_def reconcile_Some)

theorem store_update_secret_witness:
  "secretAccessKey incoming_unchanged = [] \<and>
   secretAccessKey (config (store_changed (Some incoming_unchanged) panel_typing)) = ''S3CR3T''"
  using store_update_secret [of incoming_unchanged panel_typing]
  by (simp add: panel_typing_simps incoming_simps)

text \<open>When the store has no entry at all, the effect clears the other fields and keeps
  the local secret.\<close>

lemma store_cleared_keeps_secret:
  "secretAccessKey (config (store_changed None s)) = secretAccessKey (config s)"
  by (simp add: store_changed_def s3ConfigEffect_def reconcile_None_secret)

section \<open>The panel: field edits and the settings write\<close>

text \<open>
  Claim C6, as stated, fails: the bucket is edited, the write fails, and the form shows
  the edited bucket, not the one it showed before.
\<close>

theorem failed_write_changes_form:
  "bucket (config panel_loaded) = ''b'' \<and>
   bucket (config (saveConfigToStore_settled tr_key (Some disk_full)
                    (fst (field_edited (Bucket ''x'') panel_loaded)))) = ''x''"
  by (simp add: settled_only_result field_edited_eq handleChange_eq panel_loaded_simps
      stored_config_def)

text \<open>
  Claim C6, amended. For every field edit whose settings write fails, the error is shown
  to the user as a failure result carrying the error's message, and the edit stays
  applied: the form shows the edited configuration, the settings in the store hold it,
  and nothing is rolled back.
\<close>

theorem failed_write_keeps_edit:
  assumes "field_edited ch s = (s1, effs)"
    and "s2 = saveConfigToStore_settled tr (Some err) s1"
  shows
    "testResult s2 =
       Some \<lparr>success = False,
             message = tr ''Failed to save S3 configuration: {{error}}''
                          [(''error'', err_message err)]\<rparr> \<and>
     config s2 = apply_change ch (config s) \<and>
     s3Config (settings s2) = Some (apply_change ch (config s)) \<and>
     effs = [SetSettings ((settings s)\<lparr>s3Config := Some (apply_change ch (config s))\<rparr>),
             SaveSettings ((settings s)\<lparr>s3Config := Some (apply_change ch (config s))\<rparr>)]"
proof -
  have s1: "s1 = s\<lparr>config := apply_change ch (config s),
                   settings := (settings s)\<lparr>s3Config := Some (apply_change ch (config s))\<rparr>\<rparr>"
    and effs: "effs =
      [SetSettings ((settings s)\<lparr>s3Config := Some (apply_change ch (config s))\<rparr>),
       SaveSettings ((settings s)\<lparr>s3Config := Some (apply_change ch (config s))\<rparr>)]"
    using assms(1) by (simp_all add: field_edited_eq handleChange_eq)
  have "testResult s2 =
       Some \<lparr>success = False,
             message = tr ''Failed to save S3 configuration: {{error}}''
                          [(''error'', err_message err)]\<rparr>"
    using assms(2) by (simp add: saveConfigToStore_settled_def)
  moreover have "config s2 = apply_change ch (config s)"
    and "s3Config (settings s2) = Some (apply_change ch (config s))"
    using assms(2) s1 by (simp_all add: settled_only_result)
  ultimately show ?thesis using effs by simp
qed

theorem failed_write_keeps_edit_witness:
  "testResult (saveConfigToStore_settled tr_key (Some disk_full)
                 (fst (field_edited (Bucket ''x'') panel_loaded))) =
     Some \<lparr>success = False, message = ''Failed to save S3 configuration: {{error}}''\<rparr> \<and>
   config (saveConfigToStore_settled tr_key (Some disk_full)
             (fst (field_edited (Bucket ''x'') panel_loaded))) =
     stored_config\<lparr>bucket := ''x''\<rparr>"
  using failed_write_keeps_edit
    [of "Bucket ''x''" panel_loaded "fst (field_edited (Bucket ''x'') panel_loaded)"
        "snd (field_edited (Bucket ''x'') panel_loaded)"
        "saveConfigToStore_settled tr_key (Some disk_full)
           (fst (field_edited (Bucket ''x'') panel_loaded))"
        tr_key disk_full]
  by (simp add: panel_loaded_simps tr_key_def)

text \<open>
  Claim C9. When the settings write of a field edit resolves, the displayed result
  becomes the success message for a saved configuration, whatever result was displayed
  before, a connectivity-test result included.
\<close>

theorem successful_write_shows_saved:
  "testResult (saveConfigToStore_settled tr None (fst (field_edited ch s))) =
     Some \<lparr>success = True, message = tr ''S3 configuration saved successfully'' []\<rparr> \<and>
   (\<forall>shown. testResult (saveConfigToStore_settled tr None (s'\<lparr>testResult := shown\<rparr>)) =
     Some \<lparr>success = True, message = tr ''S3 configuration saved successfully'' []\<rparr>)"
  by (simp add: saveConfigToStore_settled_def)

theorem successful_write_shows_saved_witness:
  "testResult (fst (test_connection tr_key panel_loaded)) =
     Some \<lparr>success = True, message = ''Connection test successful''\<rparr> \<and>
   testResult (saveConfigToStore_settled tr_key None
                 (fst (field_edited (Bucket ''x'') (fst (test_connection tr_key panel_loaded))))) =
     Some \<lparr>success = True, message = ''S3 configuration saved successfully''\<rparr>"
proof -
  have "testResult (fst (test_connection tr_key panel_loaded)) =
     Some \<lparr>success = True, message = ''Connection test successful''\<rparr>"
    by (simp add: tr_key_def test_connection_def handleTestConnection_def
        handleTestConnection_resumed_def)
  moreover have "testResult (saveConfigToStore_settled tr_key None
                 (fst (field_edited (Bucket ''x'') (fst (test_connection tr_key panel_loaded))))) =
     Some \<lparr>success = True, message = ''S3 configuration saved successfully''\<rparr>"
    using successful_write_shows_saved
      [of tr_key "Bucket ''x''" "fst (test_connection tr_key panel_loaded)" panel_loaded]
    by (simp add: tr_key_def)
  ultimately show ?thesis by simp
qed

section \<open>The panel: the test action\<close>

text \<open>
  Claim C4 does not hold of the code. The test action sets the panel to testing and
  clears the result; its only call is a one-second timer; and when the timer fires the
  result is the success message, for every configuration: no check is issued and the
  configuration is not read.
\<close>

theorem test_connection_is_simulated:
  "isTesting (fst (handleTestConnection s)) \<and>
   testResult (fst (handleTestConnection s)) = None \<and>
   snd (test_connection tr s) = [SetTimeout 1000] \<and>
   testResult (fst (test_connection tr s)) =
     Some \<lparr>success = True, message = tr ''Connection test successful'' []\<rparr> \<and>
   \<not> isTesting (fst (test_connection tr s)) \<and>
   (\<forall>c. testResult (fst (test_connection tr (s\<lparr>config := c\<rparr>))) =
        testResult (fst (test_connection tr s)))"
  by (simp add: test_connection_def handleTestConnection_def handleTestConnection_resumed_def)

theorem test_connection_is_simulated_witness:
  "accessKeyId (config panel_typing) = [] \<and> bucket (config panel_typing) = [] \<and>
   test_connection tr_key panel_typing =
     (panel_typing\<lparr>testResult :=
        Some \<lparr>success = True, message = ''Connection test successful''\<rparr>\<rparr>,
      [SetTimeout 1000])"
proof -
  have "isTesting panel_typing = False"
    by (simp add: panel_typing_simps)
  then have "test_connection tr_key panel_typing =
     (panel_typing\<lparr>testResult := testResult (fst (test_connection tr_key panel_typing))\<rparr>,
      snd (test_connection tr_key panel_typing))"
    by (simp add: test_connection_def handleTestConnection_def handleTestConnection_resumed_def)
  then show ?thesis
    using test_connection_is_simulated [of panel_typing tr_key]
    by (simp add: tr_key_def panel_typing_simps typing_secret_def default_config_def)
qed

section \<open>The panel: the reset function\<close>

text \<open>
  Claim C7 does not hold of the code. The reset function sets all six fields of the local
  configuration to their empty defaults, but it leaves the settings in the store as they
  are and calls neither \<^verbatim>\<open>setSettings\<close> nor \<^verbatim>\<open>saveSettings\<close>. So the next run of the
  reconciliation effect puts a stored configuration back into the form.
\<close>

theorem reset_is_not_persisted:
  "config (fst (reset_fn s)) =
     \<lparr>endpoint = [], accessKeyId = [], secretAccessKey = [], region = [], bucket = [],
      pathStyle = False\<rparr> \<and>
   settings (fst (reset_fn s)) = settings s \<and>
   snd (reset_fn s) = [] \<and>
   (\<forall>c. s3Config (settings s) = Some c \<and> non_secret c \<noteq> non_secret default_config \<longrightarrow>
        config (s3ConfigEffect (fst (reset_fn s))) = c)"
  by (auto simp: reset_fn_def default_config_def s3ConfigEffect_def reconcile_Some)

theorem reset_is_not_persisted_witness:
  "config (fst (reset_fn panel_loaded)) = default_config \<and>
   s3Config (settings (fst (reset_fn panel_loaded))) = Some stored_config \<and>
   snd (reset_fn panel_loaded) = [] \<and>
   config (s3ConfigEffect (fst (reset_fn panel_loaded))) = stored_config"
proof -
  have "non_secret stored_config \<noteq> non_secret default_config"
    by (simp add: non_secret_def stored_config_def default_config_def)
  then show ?thesis
    using reset_is_not_persisted [of panel_loaded]
    by (simp add: panel_loaded_simps default_config_def)
qed

end
